theory Spec2Isabelle
  imports Complex_Main
begin

section \<open>Python values\<close>

text \<open>
  The trading bot keeps every record (trade signal, strategy configuration, queued order,
  position, broker reply) as a Python dictionary with string keys. A dictionary is an
  association list in insertion order; assignment \<^verbatim>\<open>d[k] = v\<close> replaces the value
  of an existing key in place and appends a new key at the end. Floats are idealised as
  real numbers (no NaN, no infinity, no binary rounding error). The document store's
  \<^verbatim>\<open>_id\<close> field is left out: no code path of the model copies it.
  \<open>VIdMap\<close> is a dictionary whose keys are arbitrary values (the bracket child map is
  keyed by the broker's order ids).
\<close>

datatype val =
    VNone
  | VBool bool
  | VInt int
  | VNum real
  | VStr string
  | VList "val list"
  | VDict "(string \<times> val) list"
  | VIdMap "(val \<times> val) list"

type_synonym doc = "(string \<times> val) list"

datatype error =
    KeyError val
  | TypeError
  | ValueError
  | IndexError
  | ZeroDivisionError
  | AttributeError
  | UnboundLocalError
  | External string

primrec dict_set :: "'k \<Rightarrow> 'v \<Rightarrow> ('k \<times> 'v) list \<Rightarrow> ('k \<times> 'v) list" where
  "dict_set k v [] = [(k, v)]"
| "dict_set k v (p # ps) = (if fst p = k then (k, v) # ps else p # dict_set k v ps)"

text \<open>\<^verbatim>\<open>{**a, **b}\<close>: the entries of \<open>a\<close>, updated with those of \<open>b\<close> in order.\<close>

definition dict_merge :: "('k \<times> 'v) list \<Rightarrow> ('k \<times> 'v) list \<Rightarrow> ('k \<times> 'v) list" where
  "dict_merge a b = fold (\<lambda>kv d. dict_set (fst kv) (snd kv) d) b a"

definition has_key :: "('k \<times> 'v) list \<Rightarrow> 'k \<Rightarrow> bool" where
  "has_key d k = (map_of d k \<noteq> None)"

definition getitem :: "doc \<Rightarrow> string \<Rightarrow> error + val" where
  "getitem d k = (case map_of d k of None \<Rightarrow> Inl (KeyError (VStr k)) | Some v \<Rightarrow> Inr v)"

text \<open>\<^verbatim>\<open>d.get(k)\<close>: \<^verbatim>\<open>None\<close> for a missing key.\<close>

definition dict_get :: "doc \<Rightarrow> string \<Rightarrow> val" where
  "dict_get d k = (case map_of d k of None \<Rightarrow> VNone | Some v \<Rightarrow> v)"

text \<open>\<^verbatim>\<open>x[k]\<close> with a string \<open>k\<close>, on any value.\<close>

fun subscript :: "val \<Rightarrow> string \<Rightarrow> error + val" where
  "subscript (VDict d) k = getitem d k"
| "subscript (VIdMap m) k =
     (case map_of m (VStr k) of None \<Rightarrow> Inl (KeyError (VStr k)) | Some v \<Rightarrow> Inr v)"
| "subscript _ k = Inl TypeError"

text \<open>\<^verbatim>\<open>x[0]\<close>.\<close>

fun index0 :: "val \<Rightarrow> error + val" where
  "index0 (VList []) = Inl IndexError"
| "index0 (VList (x # xs)) = Inr x"
| "index0 (VStr []) = Inl IndexError"
| "index0 (VStr (c # cs)) = Inr (VStr [c])"
| "index0 (VDict d) = Inl (KeyError (VInt 0))"
| "index0 (VIdMap m) =
     (case map_of m (VInt 0) of None \<Rightarrow> Inl (KeyError (VInt 0)) | Some v \<Rightarrow> Inr v)"
| "index0 _ = Inl TypeError"

fun py_len :: "val \<Rightarrow> error + int" where
  "py_len (VStr s) = Inr (int (length s))"
| "py_len (VList xs) = Inr (int (length xs))"
| "py_len (VDict d) = Inr (int (length d))"
| "py_len (VIdMap m) = Inr (int (length m))"
| "py_len _ = Inl TypeError"

text \<open>\<^verbatim>\<open>x[i:]\<close>: a negative start counts from the end and is clamped at 0.\<close>

definition slice_start :: "nat \<Rightarrow> int \<Rightarrow> nat" where
  "slice_start n i = (if i < 0 then nat (max 0 (int n + i)) else nat (min i (int n)))"

fun slice_from :: "val \<Rightarrow> int \<Rightarrow> error + val" where
  "slice_from (VStr s) i = Inr (VStr (drop (slice_start (length s) i) s))"
| "slice_from (VList xs) i = Inr (VList (drop (slice_start (length xs) i) xs))"
| "slice_from _ i = Inl TypeError"

text \<open>Truthiness, as \<^verbatim>\<open>if x\<close> and \<^verbatim>\<open>x and y\<close> test it.\<close>

fun truthy :: "val \<Rightarrow> bool" where
  "truthy VNone = False"
| "truthy (VBool b) = b"
| "truthy (VInt i) = (i \<noteq> 0)"
| "truthy (VNum r) = (r \<noteq> 0)"
| "truthy (VStr s) = (s \<noteq> [])"
| "truthy (VList xs) = (xs \<noteq> [])"
| "truthy (VDict d) = (d \<noteq> [])"
| "truthy (VIdMap m) = (m \<noteq> [])"

subsection \<open>Numbers\<close>

text \<open>\<^verbatim>\<open>int(x)\<close> on a float truncates toward zero.\<close>

definition py_trunc :: "real \<Rightarrow> int" where
  "py_trunc x = (if 0 \<le> x then \<lfloor>x\<rfloor> else \<lceil>x\<rceil>)"

definition digit_of :: "char \<Rightarrow> int option" where
  "digit_of c = map_of (zip ''0123456789'' [0, 1, 2, 3, 4, 5, 6, 7, 8, 9]) c"

fun digits_value :: "int \<Rightarrow> string \<Rightarrow> int option" where
  "digits_value acc [] = Some acc"
| "digits_value acc (c # cs) =
     (case digit_of c of None \<Rightarrow> None | Some d \<Rightarrow> digits_value (10 * acc + d) cs)"

definition is_space :: "char \<Rightarrow> bool" where
  "is_space c = (c = CHR '' '' \<or> c = CHR 0x09 \<or> c = CHR 0x0A \<or> c = CHR 0x0B
                 \<or> c = CHR 0x0C \<or> c = CHR 0x0D)"

text \<open>\<^verbatim>\<open>s.strip()\<close>.\<close>

definition strip :: "string \<Rightarrow> string" where
  "strip s = rev (dropWhile is_space (rev (dropWhile is_space s)))"

text \<open>
  \<^verbatim>\<open>int(s)\<close> on a string: surrounding blanks, an optional sign, decimal digits.
  (Python also admits single underscores between digits; order ids have none.)
\<close>

definition parse_int :: "string \<Rightarrow> error + int" where
  "parse_int s =
    (case strip s of
       [] \<Rightarrow> Inl ValueError
     | c # cs \<Rightarrow>
         (if c = CHR ''-'' then
            (if cs = [] then Inl ValueError
             else case digits_value 0 cs of None \<Rightarrow> Inl ValueError | Some n \<Rightarrow> Inr (- n))
          else if c = CHR ''+'' then
            (if cs = [] then Inl ValueError
             else case digits_value 0 cs of None \<Rightarrow> Inl ValueError | Some n \<Rightarrow> Inr n)
          else case digits_value 0 (c # cs) of None \<Rightarrow> Inl ValueError | Some n \<Rightarrow> Inr n))"

fun py_int :: "val \<Rightarrow> error + int" where
  "py_int (VInt i) = Inr i"
| "py_int (VNum r) = Inr (py_trunc r)"
| "py_int (VBool b) = Inr (if b then 1 else 0)"
| "py_int (VStr s) = parse_int s"
| "py_int _ = Inl TypeError"

text \<open>
  \<^verbatim>\<open>float(x)\<close>. The runtime's parser of float literals in strings is a parameter
  (\<open>None\<close> where it raises ValueError).
\<close>

fun py_float :: "(string \<Rightarrow> real option) \<Rightarrow> val \<Rightarrow> error + real" where
  "py_float fs (VNum r) = Inr r"
| "py_float fs (VInt i) = Inr (of_int i)"
| "py_float fs (VBool b) = Inr (if b then 1 else 0)"
| "py_float fs (VStr s) = (case fs s of None \<Rightarrow> Inl ValueError | Some r \<Rightarrow> Inr r)"
| "py_float fs _ = Inl TypeError"

text \<open>\<^verbatim>\<open>round(x, n)\<close> on a float: to \<open>n\<close> decimals, ties to the even neighbour.\<close>

definition round_half_even :: "real \<Rightarrow> int" where
  "round_half_even x =
    (let f = \<lfloor>x\<rfloor>; d = x - of_int f
     in if d < 1 / 2 then f else if 1 / 2 < d then f + 1 else if even f then f else f + 1)"

definition py_round :: "real \<Rightarrow> nat \<Rightarrow> real" where
  "py_round x n = of_int (round_half_even (x * 10 ^ n)) / 10 ^ n"

text \<open>
  \<^verbatim>\<open>round(price, hi) if price >= 1 else round(price, lo)\<close> on any value;
  \<^verbatim>\<open>round\<close> of an int with a non-negative digit count is that int.
\<close>

fun round_price :: "nat \<Rightarrow> nat \<Rightarrow> val \<Rightarrow> error + val" where
  "round_price hi lo (VNum p) = Inr (VNum (if 1 \<le> p then py_round p hi else py_round p lo))"
| "round_price hi lo (VInt i) = Inr (VInt i)"
| "round_price hi lo (VBool b) = Inr (VInt (if b then 1 else 0))"
| "round_price hi lo _ = Inl TypeError"

section \<open>Computations with state and exceptions\<close>

text \<open>
  A method is a function from the state before to the state after and either the exception
  it raised or its value. An exception keeps the mutations made before it.
\<close>

type_synonym ('s, 'a) prog = "'s \<Rightarrow> 's \<times> (error + 'a)"

definition ret :: "'a \<Rightarrow> ('s, 'a) prog" where
  "ret x s = (s, Inr x)"

definition raise :: "error \<Rightarrow> ('s, 'a) prog" where
  "raise e s = (s, Inl e)"

definition lift :: "error + 'a \<Rightarrow> ('s, 'a) prog" where
  "lift r s = (s, r)"

definition modify :: "('s \<Rightarrow> 's) \<Rightarrow> ('s, unit) prog" where
  "modify f s = (f s, Inr ())"

definition bnd :: "('s, 'a) prog \<Rightarrow> ('a \<Rightarrow> ('s, 'b) prog) \<Rightarrow> ('s, 'b) prog" where
  "bnd m f s = (case m s of (s', Inl e) \<Rightarrow> (s', Inl e) | (s', Inr x) \<Rightarrow> f x s')"

definition thn :: "('s, 'a) prog \<Rightarrow> ('s, 'b) prog \<Rightarrow> ('s, 'b) prog" where
  "thn m n = bnd m (\<lambda>_. n)"

text \<open>Sequencing of pure computations that may raise.\<close>

definition and_then :: "error + 'a \<Rightarrow> ('a \<Rightarrow> error + 'b) \<Rightarrow> error + 'b" where
  "and_then r f = (case r of Inl e \<Rightarrow> Inl e | Inr x \<Rightarrow> f x)"

section \<open>The environment of one engine instance\<close>

text \<open>
  What the engine reads from outside itself during one step: its configuration (trader name,
  account id, Live or Paper), the clock, the random number of a paper order id, the
  environment constants of the bracket multipliers, and the replies of its collaborators
  (token check, option symbol formatter of the broker library, quote, linked account, order
  placement, order status).
\<close>

record response =
  status_code :: int
  header :: "string \<Rightarrow> string option"
  body :: "error + val"

record order_rec =
  o_orderType :: val
  o_price :: val
  o_session :: val
  o_duration :: val
  o_orderStrategyType :: val
  o_instruction :: val
  o_quantity :: val
  o_symbol :: val
  o_assetType :: val
  o_putCall :: "val option"
  o_children :: "val option"

record env =
  trader :: val
  account_id :: val
  live :: bool
  token_valid :: bool
  now :: val
  randint :: int
  take_profit :: real
  stop_loss :: real
  float_of_str :: "string \<Rightarrow> real option"
  option_symbol :: "val \<Rightarrow> val \<Rightarrow> val \<Rightarrow> val \<Rightarrow> error + string"
  quote :: "string \<Rightarrow> error + val"
  account_linked :: "error + val"
  order_place :: "val \<Rightarrow> order_rec \<Rightarrow> error + response"
  get_order :: "val \<Rightarrow> error + doc"

section \<open>Order builder (order\_builder.py)\<close>

text \<open>
  \<^verbatim>\<open>self.order\<close> and \<^verbatim>\<open>self.obj\<close> are created once and mutated by every
  call, so a field written by one order stays for the next. \<^verbatim>\<open>self.order\<close> has a
  fixed shape with a single leg: it is a record, the keys \<^verbatim>\<open>putCall\<close> and
  \<^verbatim>\<open>childOrderStrategies\<close> absent until an order sets them.
\<close>

record builder =
  b_order :: order_rec
  b_obj :: doc

definition init_order :: order_rec where
  "init_order = \<lparr> o_orderType = VStr ''LIMIT'', o_price = VNone, o_session = VNone,
     o_duration = VNone, o_orderStrategyType = VStr ''SINGLE'', o_instruction = VNone,
     o_quantity = VNone, o_symbol = VNone, o_assetType = VNone, o_putCall = None,
     o_children = None \<rparr>"

definition init_obj :: "env \<Rightarrow> doc" where
  "init_obj env =
    [(''Symbol'', VNone), (''Qty'', VNone), (''Position_Size'', VNone), (''Strategy'', VNone),
     (''Trader'', trader env), (''Order_ID'', VNone), (''Order_Status'', VNone),
     (''Side'', VNone), (''Asset_Type'', VNone), (''account_id'', account_id env),
     (''Position_Type'', VNone), (''Direction'', VNone)]"

definition init_builder :: "env \<Rightarrow> builder" where
  "init_builder env = \<lparr> b_order = init_order, b_obj = init_obj env \<rparr>"

definition set_obj :: "string \<Rightarrow> val \<Rightarrow> (builder, unit) prog" where
  "set_obj k v = modify (\<lambda>b. b\<lparr> b_obj := dict_set k v (b_obj b) \<rparr>)"

definition set_order :: "(order_rec \<Rightarrow> order_rec) \<Rightarrow> (builder, unit) prog" where
  "set_order f = modify (\<lambda>b. b\<lparr> b_order := f (b_order b) \<rparr>)"

record signal =
  sg_symbol :: val
  sg_strike :: val
  sg_fsym :: string
  sg_side :: val
  sg_strategy :: val
  sg_asset :: val

text \<open>
  \<^verbatim>\<open>OptionSymbol(trade_data["Symbol"], trade_data["Exp_Date"],
  trade_data["Option_Type"][0], split_strike).build()\<close>
\<close>

definition format_symbol :: "env \<Rightarrow> doc \<Rightarrow> val \<Rightarrow> error + string" where
  "format_symbol env td split_strike =
     and_then (getitem td ''Symbol'') (\<lambda>underlying.
     and_then (getitem td ''Exp_Date'') (\<lambda>exp_date.
     and_then (getitem td ''Option_Type'') (\<lambda>option_type.
     and_then (index0 option_type) (\<lambda>right.
     option_symbol env underlying exp_date right split_strike))))"

text \<open>\<^verbatim>\<open>trade_data["Pre_Symbol"][len(trade_data["Pre_Symbol"]) - 3:]\<close>\<close>

definition split_strike_of :: "doc \<Rightarrow> error + val" where
  "split_strike_of td =
     and_then (getitem td ''Pre_Symbol'') (\<lambda>pre.
     and_then (py_len pre) (\<lambda>n.
     slice_from pre (n - 3)))"

text \<open>Lines 66 to 80 of standardOrder: reads only.\<close>

definition read_signal :: "env \<Rightarrow> doc \<Rightarrow> error + signal" where
  "read_signal env td =
     and_then (getitem td ''Symbol'') (\<lambda>symbol.
     and_then (split_strike_of td) (\<lambda>split_strike.
     and_then (format_symbol env td split_strike) (\<lambda>formatted_symbol.
     and_then (getitem td ''Side'') (\<lambda>side.
     and_then (getitem td ''Strategy'') (\<lambda>strategy.
     Inr \<lparr> sg_symbol = symbol, sg_strike = split_strike, sg_fsym = formatted_symbol,
           sg_side = side, sg_strategy = strategy,
           sg_asset = (if has_key td ''Pre_Symbol'' then VStr ''OPTION''
                       else VStr ''EQUITY'') \<rparr>)))))"

text \<open>Lines 83 to 101: the fields every order sets.\<close>

definition fill_common :: "signal \<Rightarrow> builder \<Rightarrow> builder" where
  "fill_common g b =
     b\<lparr> b_order := (b_order b)
          \<lparr> o_session := VStr ''NORMAL'',
            o_duration := (if sg_asset g = VStr ''EQUITY'' then VStr ''GOOD_TILL_CANCEL''
                           else VStr ''DAY''),
            o_instruction := sg_side g,
            o_symbol := (if sg_asset g = VStr ''EQUITY'' then sg_symbol g
                         else VStr (sg_fsym g)),
            o_assetType := sg_asset g \<rparr>,
        b_obj := dict_set ''Asset_Type'' (sg_asset g)
                   (dict_set ''Side'' (sg_side g)
                     (dict_set ''Strategy'' (sg_strategy g)
                       (dict_set ''Symbol'' (sg_symbol g) (b_obj b)))) \<rparr>"

text \<open>Lines 103 to 107.\<close>

definition fill_strategy :: "doc \<Rightarrow> val \<Rightarrow> (builder, unit) prog" where
  "fill_strategy so direction =
     bnd (lift (getitem so ''Position_Type'')) (\<lambda>position_type.
     thn (set_obj ''Position_Type'' position_type)
     (bnd (lift (getitem so ''Order_Type'')) (\<lambda>order_type.
     thn (set_obj ''Order_Type'' order_type)
     (set_obj ''Direction'' direction))))"

text \<open>Lines 111 to 119.\<close>

definition fill_option :: "doc \<Rightarrow> signal \<Rightarrow> (builder, unit) prog" where
  "fill_option td g =
     (if sg_asset g = VStr ''OPTION'' then
        thn (set_obj ''Pre_Symbol'' (VStr (sg_fsym g)))
        (bnd (lift (getitem td ''Exp_Date'')) (\<lambda>exp_date.
        thn (set_obj ''Exp_Date'' exp_date)
        (bnd (lift (getitem td ''Option_Type'')) (\<lambda>option_type.
        thn (set_obj ''Option_Type'' option_type)
        (bnd (lift (getitem td ''Option_Type'')) (\<lambda>put_call.
        set_order (\<lambda>r. r\<lparr> o_putCall := Some put_call \<rparr>)))))))
      else ret ())"

text \<open>\<^verbatim>\<open>float(resp[key]["quote"][field])\<close>\<close>

definition quote_field :: "env \<Rightarrow> val \<Rightarrow> string \<Rightarrow> string \<Rightarrow> error + real" where
  "quote_field env resp key field =
     and_then (subscript resp key) (\<lambda>entry.
     and_then (subscript entry ''quote'') (\<lambda>q.
     and_then (subscript q field) (\<lambda>v.
     py_float (float_of_str env) v)))"

text \<open>
  Lines 122 to 132. For an equity the argument of the quote call is
  \<^verbatim>\<open>symbol.json()\<close>, and a symbol has no such attribute.
\<close>

definition quote_price :: "env \<Rightarrow> doc \<Rightarrow> signal \<Rightarrow> bool \<Rightarrow> error + real" where
  "quote_price env td g oco =
     (if sg_asset g = VStr ''EQUITY'' then Inl AttributeError
      else
        and_then (quote env (sg_fsym g)) (\<lambda>resp.
        and_then (if sg_side g \<in> set [VStr ''BUY'', VStr ''BUY_TO_OPEN'', VStr ''BUY_TO_CLOSE'']
                  then quote_field env resp (sg_fsym g) ''askPrice''
                  else quote_field env resp (sg_fsym g) ''bidPrice'') (\<lambda>price.
        if oco then
          and_then (format_symbol env td (sg_strike g)) (\<lambda>formatted_symbol.
          quote_field env resp formatted_symbol ''bidPrice'')
        else Inr price)))"

text \<open>
  Lines 134 and 135:
  \<^verbatim>\<open>self.order["price"] = round(price, 2) if price >= 1 else round(price, 2)\<close>
\<close>

definition order_price :: "real \<Rightarrow> real" where
  "order_price price = (if 1 \<le> price then py_round price 2 else py_round price 2)"

text \<open>
  Lines 142 and 143:
  \<^verbatim>\<open>int(position_size/price) if asset_type == "EQUITY" else int((position_size / 100)/price)\<close>
\<close>

definition shares_of :: "val \<Rightarrow> int \<Rightarrow> real \<Rightarrow> error + int" where
  "shares_of asset position_size price =
     (if price = 0 then Inl ZeroDivisionError
      else if asset = VStr ''EQUITY'' then Inr (py_trunc (of_int position_size / price))
      else Inr (py_trunc ((of_int position_size / 100) / price)))"


text \<open>Lines 138 to 162. The result \<open>False\<close> is the pair \<^verbatim>\<open>(None, None)\<close>.\<close>

definition open_branch :: "env \<Rightarrow> doc \<Rightarrow> signal \<Rightarrow> real \<Rightarrow> (builder, bool) prog" where
  "open_branch env so g price =
     bnd (lift (and_then (getitem so ''Position_Size'') py_int)) (\<lambda>position_size.
     bnd (lift (shares_of (sg_asset g) position_size price)) (\<lambda>shares.
     bnd (lift (getitem so ''Active'')) (\<lambda>active.
     if truthy active \<and> 0 < shares then
       thn (set_order (\<lambda>r. r\<lparr> o_quantity := VInt shares \<rparr>))
       (thn (set_obj ''Qty'' (VInt shares))
       (thn (set_obj ''Position_Size'' (VInt position_size))
       (thn (set_obj ''Entry_Price'' (VNum price))
       (thn (set_obj ''Entry_Date'' (now env))
       (ret True)))))
     else ret False)))"

text \<open>Lines 165 to 179.\<close>

definition close_branch :: "env \<Rightarrow> doc \<Rightarrow> real \<Rightarrow> (builder, bool) prog" where
  "close_branch env td price =
     bnd (lift (getitem td ''Qty'')) (\<lambda>qty.
     thn (set_order (\<lambda>r. r\<lparr> o_quantity := qty \<rparr>))
     (bnd (lift (getitem td ''Entry_Price'')) (\<lambda>entry_price.
     thn (set_obj ''Entry_Price'' entry_price)
     (bnd (lift (getitem td ''Entry_Date'')) (\<lambda>entry_date.
     thn (set_obj ''Entry_Date'' entry_date)
     (thn (set_obj ''Exit_Price'' (VNum price))
     (thn (set_obj ''Exit_Date'' (now env))
     (bnd (lift (getitem td ''Qty'')) (\<lambda>qty2.
     thn (set_obj ''Qty'' qty2)
     (bnd (lift (getitem td ''Position_Size'')) (\<lambda>position_size.
     thn (set_obj ''Position_Size'' position_size)
     (ret True))))))))))))"

text \<open>Lines 138 to 182: the branch on the direction, and the return of the pair.\<close>

definition direction_branch ::
  "env \<Rightarrow> doc \<Rightarrow> doc \<Rightarrow> val \<Rightarrow> signal \<Rightarrow> real \<Rightarrow> (builder, bool) prog" where
  "direction_branch env td so direction g price =
    (if direction = VStr ''OPEN POSITION'' then open_branch env so g price
     else if direction = VStr ''CLOSE POSITION'' then close_branch env td price
     else ret True)"

definition standardOrder :: "env \<Rightarrow> doc \<Rightarrow> doc \<Rightarrow> val \<Rightarrow> bool \<Rightarrow> (builder, bool) prog" where
  "standardOrder env td so direction oco =
     bnd (lift (read_signal env td)) (\<lambda>g.
     thn (modify (fill_common g))
     (thn (fill_strategy so direction)
     (thn (fill_option td g)
     (bnd (lift (quote_price env td g oco)) (\<lambda>price.
     thn (set_order (\<lambda>r. r\<lparr> o_price := VNum (order_price price) \<rparr>))
     (direction_branch env td so direction g price))))))"

subsection \<open>Bracket orders\<close>

definition inverse_side :: "val \<Rightarrow> val option" where
  "inverse_side side =
    (if side = VStr ''BUY_TO_OPEN'' then Some (VStr ''SELL_TO_CLOSE'')
     else if side = VStr ''BUY'' then Some (VStr ''SELL'')
     else if side = VStr ''SELL'' then Some (VStr ''BUY'')
     else if side = VStr ''SELL_TO_OPEN'' then Some (VStr ''BUY_TO_CLOSE'')
     else None)"

fun num_of :: "val \<Rightarrow> real option" where
  "num_of (VNum r) = Some r"
| "num_of (VInt i) = Some (of_int i)"
| "num_of (VBool b) = Some (if b then 1 else 0)"
| "num_of _ = None"

text \<open>
  \<^verbatim>\<open>round(order["price"] * K, 2) if order["price"] * K >= 1 else round(order["price"] * K, 2)\<close>
  with a float \<open>K\<close>.
\<close>

definition scaled_price :: "val \<Rightarrow> real \<Rightarrow> error + val" where
  "scaled_price p k =
    (case num_of p of
       None \<Rightarrow> Inl TypeError
     | Some r \<Rightarrow> Inr (VNum (if 1 \<le> r * k then py_round (r * k) 2 else py_round (r * k) 2)))"

definition child_order :: "string \<Rightarrow> string \<Rightarrow> val \<Rightarrow> val \<Rightarrow> val \<Rightarrow> val \<Rightarrow> val \<Rightarrow> val" where
  "child_order order_type price_key child_price instruction qty asset instrument =
     VDict [(''orderStrategyType'', VStr ''SINGLE''), (''session'', VStr ''NORMAL''),
            (''duration'', VStr ''GOOD_TILL_CANCEL''), (''orderType'', VStr order_type),
            (price_key, child_price),
            (''orderLegCollection'',
               VList [VDict [(''instruction'', instruction), (''quantity'', qty),
                             (''instrument'',
                                VDict [(''assetType'', asset), (''symbol'', instrument)])]])]"

text \<open>
  Lines 221 to 264, on the order that standardOrder returned: the assignments to
  \<^verbatim>\<open>order\<close>, where \<^verbatim>\<open>instruction\<close> is unbound for a side that has no inverse.
\<close>

definition bracket :: "env \<Rightarrow> val \<Rightarrow> val \<Rightarrow> val \<Rightarrow> (builder, bool) prog" where
  "bracket env side asset instrument =
     thn (set_order (\<lambda>r. r\<lparr> o_orderStrategyType := VStr ''TRIGGER'' \<rparr>))
     (bnd (\<lambda>b. (b, scaled_price (o_price (b_order b)) (take_profit env))) (\<lambda>tp.
     bnd (lift (case inverse_side side of None \<Rightarrow> Inl UnboundLocalError
                | Some i \<Rightarrow> Inr i)) (\<lambda>instruction.
     bnd (\<lambda>b. (b, getitem (b_obj b) ''Qty'')) (\<lambda>qty.
     bnd (\<lambda>b. (b, scaled_price (o_price (b_order b)) (stop_loss env))) (\<lambda>sl.
     thn (set_order (\<lambda>r. r\<lparr> o_children := Some (VList
            [VDict [(''orderStrategyType'', VStr ''OCO''),
                    (''childOrderStrategies'',
                       VList [child_order ''LIMIT'' ''price'' tp instruction qty asset instrument,
                              child_order ''STOP'' ''stopPrice'' sl instruction qty asset instrument])]])
          \<rparr>))
     (ret True))))))"

definition OCOorder :: "env \<Rightarrow> doc \<Rightarrow> doc \<Rightarrow> val \<Rightarrow> (builder, bool) prog" where
  "OCOorder env td so direction =
     bnd (standardOrder env td so direction True) (\<lambda>built.
     bnd (lift (getitem td ''Side'')) (\<lambda>side.
     bnd (lift (getitem td ''Symbol'')) (\<lambda>symbol.
     bnd (lift (split_strike_of td)) (\<lambda>split_strike.
     bnd (lift (format_symbol env td split_strike)) (\<lambda>formatted_symbol.
     if \<not> built then raise TypeError
     else if has_key td ''Pre_Symbol''
       then bracket env side (VStr ''OPTION'') (VStr formatted_symbol)
       else bracket env side (VStr ''EQUITY'') symbol)))))"

section \<open>The document store\<close>

text \<open>
  Each collection is the list of its documents in insertion order. Every write succeeds
  (write errors of the store are outside the model). \<open>placed\<close> is the list of orders
  handed to the broker's order placement call and \<open>notified\<close> counts the push
  notifications: the two effects outside the store.
\<close>

record db =
  open_positions :: "doc list"
  closed_positions :: "doc list"
  queue :: "doc list"
  rejected :: "doc list"
  canceled :: "doc list"
  strategies :: "doc list"
  forbidden :: "doc list"
  placed :: "order_rec list"
  notified :: nat

text \<open>A filter of equalities matches a document that has each field with that value.\<close>

definition matches :: "doc \<Rightarrow> doc \<Rightarrow> bool" where
  "matches flt d = list_all (\<lambda>kv. map_of d (fst kv) = Some (snd kv)) flt"

definition find_one :: "doc list \<Rightarrow> doc \<Rightarrow> doc option" where
  "find_one coll flt = List.find (matches flt) coll"

primrec remove_first :: "('a \<Rightarrow> bool) \<Rightarrow> 'a list \<Rightarrow> 'a list" where
  "remove_first P [] = []"
| "remove_first P (x # xs) = (if P x then xs else x # remove_first P xs)"

definition delete_one :: "doc \<Rightarrow> doc list \<Rightarrow> doc list" where
  "delete_one flt coll = remove_first (matches flt) coll"

primrec update_first :: "('a \<Rightarrow> bool) \<Rightarrow> ('a \<Rightarrow> 'a) \<Rightarrow> 'a list \<Rightarrow> 'a list" where
  "update_first P f [] = []"
| "update_first P f (x # xs) = (if P x then f x # xs else x # update_first P f xs)"

text \<open>
  \<^verbatim>\<open>update_one(flt, {"$set": fields}, upsert=...)\<close>: the first matching document gets
  the fields; without a match an upsert inserts the filter's fields with the new ones.
\<close>

definition update_one :: "doc \<Rightarrow> doc \<Rightarrow> bool \<Rightarrow> doc list \<Rightarrow> doc list" where
  "update_one flt changes upsert coll =
    (if list_ex (matches flt) coll
     then update_first (matches flt) (\<lambda>d. dict_merge d changes) coll
     else if upsert then coll @ [dict_merge flt changes] else coll)"

text \<open>\<^verbatim>\<open>update_one(flt, {"$setOnInsert": fields}, upsert=True)\<close>\<close>

definition insert_if_absent :: "doc \<Rightarrow> doc \<Rightarrow> doc list \<Rightarrow> doc list" where
  "insert_if_absent flt changes coll =
    (if list_ex (matches flt) coll then coll else coll @ [dict_merge flt changes])"

record engine =
  bld :: builder
  store :: db

definition on_builder :: "(builder, 'a) prog \<Rightarrow> (engine, 'a) prog" where
  "on_builder m s = (case m (bld s) of (b, r) \<Rightarrow> (s\<lparr> bld := b \<rparr>, r))"

definition on_store :: "(db \<Rightarrow> db) \<Rightarrow> (engine, unit) prog" where
  "on_store f = modify (\<lambda>s. s\<lparr> store := f (store s) \<rparr>)"

text \<open>
  Modelled from the spec: the decorator \<^verbatim>\<open>exception_handler\<close> of
  assets/exception\_handler.py, which is not among the sources. Section 7: all failures are
  caught at the operation boundary and logged; no exception is surfaced beyond the current
  operation. The decorated method returns \<^verbatim>\<open>None\<close> and the state keeps what was
  written before the exception.
\<close>

definition exception_handler :: "('s, 'a) prog \<Rightarrow> 's \<Rightarrow> 's \<times> 'a option" where
  "exception_handler m s =
    (case m s of (s', Inl e) \<Rightarrow> (s', None) | (s', Inr x) \<Rightarrow> (s', Some x))"

definition handled :: "('s, unit) prog \<Rightarrow> 's \<Rightarrow> 's" where
  "handled m s = fst (exception_handler m s)"

section \<open>Order lifecycle (api\_trader/\_\_init\_\_.py)\<close>

subsection \<open>Step two: queueOrder\<close>

definition key_filter :: "env \<Rightarrow> val \<Rightarrow> val \<Rightarrow> doc" where
  "key_filter env symbol strategy =
     [(''Trader'', trader env), (''Symbol'', symbol), (''Strategy'', strategy)]"

definition account_key_filter :: "env \<Rightarrow> val \<Rightarrow> val \<Rightarrow> doc" where
  "account_key_filter env symbol strategy =
     [(''Trader'', trader env), (''Symbol'', symbol), (''Strategy'', strategy),
      (''account_id'', account_id env)]"

definition queueOrder_body :: "env \<Rightarrow> doc \<Rightarrow> (db, unit) prog" where
  "queueOrder_body env qo =
     bnd (lift (getitem qo ''Symbol'')) (\<lambda>symbol.
     bnd (lift (getitem qo ''Strategy'')) (\<lambda>strategy.
     modify (\<lambda>d. d\<lparr> queue := update_one (key_filter env symbol strategy) qo True (queue d) \<rparr>)))"

definition queueOrder :: "env \<Rightarrow> doc \<Rightarrow> db \<Rightarrow> db" where
  "queueOrder env qo = handled (queueOrder_body env qo)"

subsection \<open>Step one: sendOrder\<close>

text \<open>\<^verbatim>\<open>self.client.account_linked().json()[0]['hashValue']\<close>\<close>

definition account_hash :: "env \<Rightarrow> error + val" where
  "account_hash env =
     and_then (account_linked env) (\<lambda>j.
     and_then (index0 j) (\<lambda>a.
     subscript a ''hashValue''))"

text \<open>The call of \<^verbatim>\<open>self.client.order_place(accountHash, order)\<close>.\<close>

definition place :: "env \<Rightarrow> val \<Rightarrow> (engine, response) prog" where
  "place env h s =
     (s\<lparr> store := (store s)\<lparr> placed := placed (store s) @ [b_order (bld s)] \<rparr> \<rparr>,
      order_place env h (b_order (bld s)))"

definition last_segment :: "string \<Rightarrow> string" where
  "last_segment s = rev (takeWhile (\<lambda>c. c \<noteq> CHR ''/'') (rev s))"

text \<open>\<^verbatim>\<open>int((resp.headers["Location"]).split("/")[-1].strip())\<close>\<close>

definition location_id :: "response \<Rightarrow> error + int" where
  "location_id resp =
    (case header resp ''Location'' of
       None \<Rightarrow> Inl (KeyError (VStr ''Location''))
     | Some l \<Rightarrow> parse_int (strip (last_segment l)))"

definition rejection_record :: "env \<Rightarrow> val \<Rightarrow> val \<Rightarrow> val \<Rightarrow> val \<Rightarrow> doc" where
  "rejection_record env symbol order_type status strategy =
     [(''Symbol'', symbol), (''Order_Type'', order_type), (''Order_Status'', status),
      (''Strategy'', strategy), (''Trader'', trader env), (''Date'', now env),
      (''account_id'', account_id env)]"

text \<open>Lines 194 and 195.\<close>

definition enqueue :: "env \<Rightarrow> (engine, unit) prog" where
  "enqueue env =
     thn (on_builder (set_obj ''Order_Status'' (VStr ''QUEUED'')))
     (\<lambda>s. (s\<lparr> store := queueOrder env (b_obj (bld s)) (store s) \<rparr>, Inr ()))"

text \<open>
  Lines 154 to 197, given what the order builder returned. The error text of a rejected
  placement is only written to the log.
\<close>

definition submit :: "env \<Rightarrow> val \<Rightarrow> val \<Rightarrow> val \<Rightarrow> bool \<Rightarrow> (engine, unit) prog" where
  "submit env symbol strategy side built =
    (if \<not> built then ret ()
     else if live env then
       bnd (lift (account_hash env)) (\<lambda>h.
       bnd (place env h) (\<lambda>resp.
       if status_code resp \<notin> set [200, 201] then
         on_store (\<lambda>d. d\<lparr> rejected := rejected d @
             [rejection_record env symbol side (VStr ''REJECTED'') strategy] \<rparr>)
       else
         bnd (lift (location_id resp)) (\<lambda>order_id.
         thn (on_builder (set_obj ''Order_ID'' (VInt order_id)))
         (thn (on_builder (set_obj ''Account_Position'' (VStr ''Live'')))
         (enqueue env)))))
     else
       thn (on_builder (set_obj ''Order_ID'' (VInt (- 1 * randint env))))
       (thn (on_builder (set_obj ''Account_Position'' (VStr ''Paper'')))
       (enqueue env)))"

definition sendOrder_body :: "env \<Rightarrow> doc \<Rightarrow> doc \<Rightarrow> val \<Rightarrow> (engine, unit) prog" where
  "sendOrder_body env td so direction =
    (if \<not> token_valid env then ret ()
     else
       bnd (lift (getitem td ''Symbol'')) (\<lambda>symbol.
       bnd (lift (getitem td ''Strategy'')) (\<lambda>strategy.
       bnd (lift (getitem td ''Side'')) (\<lambda>side.
       bnd (lift (getitem so ''Order_Type'')) (\<lambda>order_type.
       if order_type = VStr ''STANDARD'' then
         bnd (on_builder (standardOrder env td so direction False))
             (submit env symbol strategy side)
       else if order_type = VStr ''OCO'' then
         bnd (on_builder (OCOorder env td so direction))
             (submit env symbol strategy side)
       else ret ())))))"

definition sendOrder :: "env \<Rightarrow> doc \<Rightarrow> doc \<Rightarrow> val \<Rightarrow> engine \<Rightarrow> engine" where
  "sendOrder env td so direction = handled (sendOrder_body env td so direction)"

subsection \<open>Step four: pushOrder\<close>

text \<open>Lines 302 to 307: the fill price and the share count.\<close>

definition fill_of :: "doc \<Rightarrow> doc \<Rightarrow> error + (val \<times> int)" where
  "fill_of queue_order spec_order =
    (if has_key spec_order ''orderActivityCollection'' then
       and_then (getitem spec_order ''orderActivityCollection'') (\<lambda>activities.
       and_then (index0 activities) (\<lambda>activity.
       and_then (subscript activity ''executionLegs'') (\<lambda>legs.
       and_then (index0 legs) (\<lambda>leg.
       and_then (subscript leg ''price'') (\<lambda>fill_price.
       and_then (and_then (getitem spec_order ''quantity'') py_int) (\<lambda>shares.
       Inr (fill_price, shares)))))))
     else
       and_then (getitem spec_order ''price'') (\<lambda>fill_price.
       and_then (and_then (getitem queue_order ''Qty'') py_int) (\<lambda>shares.
       Inr (fill_price, shares))))"

record fill =
  f_symbol :: val
  f_strategy :: val
  f_direction :: val
  f_price :: val
  f_shares :: int
  f_obj :: doc

text \<open>Lines 300 to 336: everything that pushOrder reads before it touches the store.\<close>

definition read_fill :: "env \<Rightarrow> doc \<Rightarrow> doc \<Rightarrow> val \<Rightarrow> error + fill" where
  "read_fill env queue_order spec_order data_integrity =
     and_then (getitem queue_order ''Symbol'') (\<lambda>symbol.
     and_then (fill_of queue_order spec_order) (\<lambda>(fill_price, shares).
     and_then (round_price 2 4 fill_price) (\<lambda>rounded.
     and_then (getitem queue_order ''Strategy'') (\<lambda>strategy.
     and_then (getitem queue_order ''Side'') (\<lambda>side.
     and_then (getitem queue_order ''account_id'') (\<lambda>acct.
     and_then (getitem queue_order ''Position_Size'') (\<lambda>position_size.
     and_then (getitem queue_order ''Asset_Type'') (\<lambda>asset_type.
     and_then (getitem queue_order ''Position_Type'') (\<lambda>position_type.
     and_then (getitem queue_order ''Direction'') (\<lambda>direction.
     and_then (getitem queue_order ''Account_Position'') (\<lambda>account_position.
     and_then (getitem queue_order ''Order_Type'') (\<lambda>order_type.
     and_then
       (if asset_type = VStr ''OPTION'' then
          and_then (getitem queue_order ''Pre_Symbol'') (\<lambda>pre_symbol.
          and_then (getitem queue_order ''Exp_Date'') (\<lambda>exp_date.
          and_then (getitem queue_order ''Option_Type'') (\<lambda>option_type.
          Inr [(''Pre_Symbol'', pre_symbol), (''Exp_Date'', exp_date),
               (''Option_Type'', option_type)])))
        else Inr []) (\<lambda>option_part.
     Inr \<lparr> f_symbol = symbol, f_strategy = strategy, f_direction = direction,
           f_price = rounded, f_shares = shares,
           f_obj = [(''Symbol'', symbol), (''Strategy'', strategy),
                    (''Position_Size'', position_size), (''Position_Type'', position_type),
                    (''Data_Integrity'', data_integrity), (''Trader'', trader env),
                    (''account_id'', acct), (''Asset_Type'', asset_type),
                    (''Account_Position'', account_position), (''Order_Type'', order_type)]
                   @ option_part \<rparr>)))))))))))))"

text \<open>Line 341 to 344: the record of the new open position.\<close>

definition opened_record :: "env \<Rightarrow> fill \<Rightarrow> doc" where
  "opened_record env f =
     dict_set ''Entry_Date'' (now env)
       (dict_set ''Entry_Price'' (f_price f)
         (dict_set ''Qty'' (VInt (f_shares f)) (f_obj f)))"

text \<open>Lines 357 to 361: the record of the closed position, from the open one.\<close>

definition closed_record :: "env \<Rightarrow> fill \<Rightarrow> doc \<Rightarrow> error + doc" where
  "closed_record env f position =
     and_then (getitem position ''Qty'') (\<lambda>qty.
     and_then (getitem position ''Entry_Price'') (\<lambda>entry_price.
     and_then (getitem position ''Entry_Date'') (\<lambda>entry_date.
     Inr (dict_set ''Exit_Date'' (now env)
           (dict_set ''Exit_Price'' (f_price f)
             (dict_set ''Entry_Date'' entry_date
               (dict_set ''Entry_Price'' entry_price
                 (dict_set ''Qty'' qty (f_obj f)))))))))"

text \<open>
  Lines 371 to 385: delete the open position, and once more when the first call reports
  that it deleted nothing.
\<close>

definition delete_with_retry :: "doc \<Rightarrow> doc list \<Rightarrow> doc list" where
  "delete_with_retry flt coll =
    (let coll' = delete_one flt coll
     in if length coll - length coll' = 0 then delete_one flt coll' else coll')"

datatype target = Into_open doc | Into_closed doc

text \<open>
  Lines 341 to 389. Without an open position \<^verbatim>\<open>find_one\<close> gives \<^verbatim>\<open>None\<close>, and
  subscripting it raises. A direction that is neither of the two leaves
  \<^verbatim>\<open>collection_insert\<close> at \<^verbatim>\<open>None\<close>.
\<close>

definition choose_target :: "env \<Rightarrow> fill \<Rightarrow> (db, target option) prog" where
  "choose_target env f =
    (if f_direction f = VStr ''OPEN POSITION'' then ret (Some (Into_open (opened_record env f)))
     else if f_direction f = VStr ''CLOSE POSITION'' then
       bnd (\<lambda>d. (d, case find_one (open_positions d)
                              (key_filter env (f_symbol f) (f_strategy f)) of
                       None \<Rightarrow> Inl TypeError
                     | Some position \<Rightarrow> closed_record env f position)) (\<lambda>r.
       thn (modify (\<lambda>d. d\<lparr> open_positions :=
              delete_with_retry (key_filter env (f_symbol f) (f_strategy f))
                (open_positions d) \<rparr>))
       (ret (Some (Into_closed r))))
     else ret None)"

text \<open>
  Lines 390 to 404: the insert; calling \<^verbatim>\<open>None\<close> raises inside the
  \<^verbatim>\<open>try\<close>, which logs it.
\<close>

definition insert_target :: "target option \<Rightarrow> db \<Rightarrow> db" where
  "insert_target t d =
    (case t of
       None \<Rightarrow> d
     | Some (Into_open r) \<Rightarrow> d\<lparr> open_positions := open_positions d @ [r] \<rparr>
     | Some (Into_closed r) \<Rightarrow> d\<lparr> closed_positions := closed_positions d @ [r] \<rparr>)"

definition pushOrder_body :: "env \<Rightarrow> doc \<Rightarrow> doc \<Rightarrow> val \<Rightarrow> (db, unit) prog" where
  "pushOrder_body env queue_order spec_order data_integrity =
     bnd (lift (read_fill env queue_order spec_order data_integrity)) (\<lambda>f.
     bnd (choose_target env f) (\<lambda>t.
     thn (modify (insert_target t))
     (thn (modify (\<lambda>d. d\<lparr> queue :=
             delete_one (account_key_filter env (f_symbol f) (f_strategy f)) (queue d) \<rparr>))
     (modify (\<lambda>d. d\<lparr> notified := Suc (notified d) \<rparr>)))))"

definition pushOrder :: "env \<Rightarrow> doc \<Rightarrow> doc \<Rightarrow> val \<Rightarrow> db \<Rightarrow> db" where
  "pushOrder env queue_order spec_order data_integrity =
     handled (pushOrder_body env queue_order spec_order data_integrity)"

subsection \<open>Bracket children (api\_trader/tasks.py)\<close>

text \<open>What a \<^verbatim>\<open>for\<close> loop iterates over.\<close>

fun iter_items :: "val \<Rightarrow> error + val list" where
  "iter_items (VList xs) = Inr xs"
| "iter_items (VStr s) = Inr (map (\<lambda>c. VStr [c]) s)"
| "iter_items (VDict d) = Inr (map (\<lambda>kv. VStr (fst kv)) d)"
| "iter_items (VIdMap m) = Inr (map fst m)"
| "iter_items _ = Inl TypeError"

text \<open>\<^verbatim>\<open>k in x\<close> for a string \<open>k\<close> and a dictionary \<open>x\<close>.\<close>

fun contains_key :: "val \<Rightarrow> string \<Rightarrow> bool" where
  "contains_key (VDict d) k = has_key d k"
| "contains_key (VIdMap m) k = has_key m (VStr k)"
| "contains_key _ k = False"

fun hashable :: "val \<Rightarrow> bool" where
  "hashable (VList xs) = False"
| "hashable (VDict d) = False"
| "hashable (VIdMap m) = False"
| "hashable _ = True"

text \<open>
  Lines 143 to 148 of tasks.py for one child: the entry is built first, the key
  \<^verbatim>\<open>child["orderId"]\<close> is read last.
\<close>

definition child_entry :: "val \<Rightarrow> error + (val \<times> val)" where
  "child_entry child =
     and_then (subscript child ''orderLegCollection'') (\<lambda>legs.
     and_then (index0 legs) (\<lambda>leg.
     and_then (subscript leg ''instruction'') (\<lambda>side.
     and_then (if contains_key child ''stopPrice'' then subscript child ''stopPrice''
               else subscript child ''price'') (\<lambda>exit_price.
     and_then (subscript child ''status'') (\<lambda>status.
     and_then (subscript child ''orderId'') (\<lambda>order_id.
     if hashable order_id then
       Inr (order_id,
            VDict [(''Side'', side), (''Exit_Price'', exit_price),
                   (''Exit_Type'', if contains_key child ''stopPrice'' then VStr ''STOP LOSS''
                                   else VStr ''TAKE PROFIT''),
                   (''Order_Status'', status)])
     else Inl TypeError))))))"

fun collect_children :: "val list \<Rightarrow> (val \<times> val) list \<Rightarrow> error + (val \<times> val) list" where
  "collect_children [] acc = Inr acc"
| "collect_children (child # rest) acc =
     (case child_entry child of
        Inl e \<Rightarrow> Inl e
      | Inr kv \<Rightarrow> collect_children rest (dict_set (fst kv) (snd kv) acc))"

definition extractOCOchildren_body :: "doc \<Rightarrow> error + doc" where
  "extractOCOchildren_body spec_order =
     and_then (getitem spec_order ''childOrderStrategies'') (\<lambda>outer.
     and_then (index0 outer) (\<lambda>first.
     and_then (subscript first ''childOrderStrategies'') (\<lambda>children.
     and_then (iter_items children) (\<lambda>items.
     and_then (collect_children items []) (\<lambda>m.
     Inr [(''childOrderStrategies'', VIdMap m)])))))"

text \<open>The method is decorated: an exception makes it return \<^verbatim>\<open>None\<close>.\<close>

definition extractOCOchildren :: "doc \<Rightarrow> doc option" where
  "extractOCOchildren spec_order =
    (case extractOCOchildren_body spec_order of Inl e \<Rightarrow> None | Inr d \<Rightarrow> Some d)"

subsection \<open>Step three: updateStatus\<close>

text \<open>Lines 238 to 241: the price and share count that the queued order itself holds.\<close>

definition snapshot :: "doc \<Rightarrow> error + doc" where
  "snapshot queue_order =
     and_then (getitem queue_order ''Direction'') (\<lambda>direction.
     and_then (if direction = VStr ''OPEN POSITION'' then getitem queue_order ''Entry_Price''
               else getitem queue_order ''Exit_Price'') (\<lambda>p.
     and_then (getitem queue_order ''Qty'') (\<lambda>qty.
     Inr [(''price'', p), (''shares'', qty)])))"

text \<open>Lines 242 to 251; the warning of the Live branch reads three fields.\<close>

definition integrity :: "env \<Rightarrow> doc \<Rightarrow> error + val" where
  "integrity env queue_order =
    (if live env then
       and_then (getitem queue_order ''Symbol'') (\<lambda>_.
       and_then (getitem queue_order ''Order_Type'') (\<lambda>_.
       and_then (getitem queue_order ''Direction'') (\<lambda>_.
       Inr (VStr ''Assumed''))))
     else Inr (VStr ''Reliable''))"

text \<open>Lines 264 to 282: a canceled or rejected order leaves the queue for an audit store.\<close>

definition retire :: "env \<Rightarrow> doc \<Rightarrow> val \<Rightarrow> val \<Rightarrow> (db, unit) prog" where
  "retire env queue_order order_type new_status =
     bnd (lift (getitem queue_order ''Symbol'')) (\<lambda>symbol.
     bnd (lift (getitem queue_order ''Strategy'')) (\<lambda>strategy.
     thn (modify (\<lambda>d. d\<lparr> queue :=
            delete_one (account_key_filter env symbol strategy) (queue d) \<rparr>))
     (if new_status = VStr ''REJECTED''
      then modify (\<lambda>d. d\<lparr> rejected := rejected d @
             [rejection_record env symbol order_type new_status strategy] \<rparr>)
      else modify (\<lambda>d. d\<lparr> canceled := canceled d @
             [rejection_record env symbol order_type new_status strategy] \<rparr>))))"

text \<open>Lines 287 to 290: any other status is written to the queued order.\<close>

definition record_status :: "env \<Rightarrow> doc \<Rightarrow> val \<Rightarrow> (db, unit) prog" where
  "record_status env queue_order new_status =
     bnd (lift (getitem queue_order ''Symbol'')) (\<lambda>symbol.
     bnd (lift (getitem queue_order ''Strategy'')) (\<lambda>strategy.
     modify (\<lambda>d. d\<lparr> queue :=
       update_one (key_filter env symbol strategy) [(''Order_Status'', new_status)] False
         (queue d) \<rparr>)))"

text \<open>Lines 259 to 262.\<close>

definition resolve_filled :: "env \<Rightarrow> doc \<Rightarrow> doc \<Rightarrow> (db, unit) prog" where
  "resolve_filled env queue_order spec_order =
     bnd (lift (getitem queue_order ''Order_Type'')) (\<lambda>order_type.
     if order_type = VStr ''OCO'' then
       (case extractOCOchildren spec_order of
          None \<Rightarrow> raise TypeError
        | Some children \<Rightarrow>
            modify (pushOrder env (dict_merge queue_order children) spec_order
                      (VStr ''Reliable'')))
     else modify (pushOrder env queue_order spec_order (VStr ''Reliable'')))"

text \<open>The body of the loop, lines 232 to 290, for one queued order.\<close>

definition poll_order :: "env \<Rightarrow> doc \<Rightarrow> (db, unit) prog" where
  "poll_order env queue_order =
     bnd (lift (and_then (getitem queue_order ''Order_ID'') (get_order env))) (\<lambda>spec_order.
     if has_key spec_order ''error'' then
       bnd (lift (snapshot queue_order)) (\<lambda>custom.
       bnd (lift (integrity env queue_order)) (\<lambda>data_integrity.
       modify (pushOrder env queue_order custom data_integrity)))
     else
       bnd (lift (getitem queue_order ''Order_Type'')) (\<lambda>order_type.
       bnd (lift (getitem queue_order ''Order_ID'')) (\<lambda>order_id.
       if order_id = dict_get spec_order ''orderId'' then
         (if dict_get spec_order ''status'' = VStr ''FILLED''
            then resolve_filled env queue_order spec_order
          else if dict_get spec_order ''status'' \<in> set [VStr ''CANCELED'', VStr ''REJECTED'']
            then retire env queue_order order_type (dict_get spec_order ''status'')
          else record_status env queue_order (dict_get spec_order ''status''))
       else ret ())))"

fun run_all :: "('a \<Rightarrow> ('s, unit) prog) \<Rightarrow> 'a list \<Rightarrow> ('s, unit) prog" where
  "run_all f [] = ret ()"
| "run_all f (x # xs) = thn (f x) (run_all f xs)"

text \<open>
  The query of lines 226 to 230: this trader's and account's queued orders that have an
  order id.
\<close>

definition queued_for :: "env \<Rightarrow> doc \<Rightarrow> bool" where
  "queued_for env d =
    (matches [(''Trader'', trader env), (''account_id'', account_id env)] d
     \<and> (case map_of d ''Order_ID'' of None \<Rightarrow> False | Some v \<Rightarrow> v \<noteq> VNone))"

definition updateStatus_body :: "env \<Rightarrow> (db, unit) prog" where
  "updateStatus_body env =
    (if \<not> token_valid env then ret ()
     else (\<lambda>d. run_all (poll_order env) (filter (queued_for env) (queue d)) d))"

definition updateStatus :: "env \<Rightarrow> db \<Rightarrow> db" where
  "updateStatus env = handled (updateStatus_body env)"

subsection \<open>The trader's cycle: runTrader\<close>

definition addNewStrategy :: "env \<Rightarrow> val \<Rightarrow> val \<Rightarrow> db \<Rightarrow> db" where
  "addNewStrategy env strategy asset_type d =
     d\<lparr> strategies := insert_if_absent [(''Strategy'', strategy)]
          [(''Active'', VBool True), (''Order_Type'', VStr ''STANDARD''),
           (''Asset_Type'', asset_type), (''Position_Size'', VInt 500),
           (''Position_Type'', VStr ''LONG''), (''account_id'', account_id env),
           (''Strategy'', strategy)]
          (strategies d) \<rparr>"

text \<open>
  \<^verbatim>\<open>forbidden_symbols\<close> is the cursor of a query, and \<^verbatim>\<open>symbol not in forbidden_symbols\<close>
  iterates it: each document it yields is compared with the symbol, and what was yielded
  is gone for the rows that follow.
\<close>

fun cursor_contains :: "val \<Rightarrow> doc list \<Rightarrow> bool \<times> doc list" where
  "cursor_contains x [] = (False, [])"
| "cursor_contains x (d # ds) = (if VDict d = x then (True, ds) else cursor_contains x ds)"

record cycle =
  eng :: engine
  cursor :: "doc list"

definition listed :: "val \<Rightarrow> (cycle, bool) prog" where
  "listed symbol c =
    (case cursor_contains symbol (cursor c) of (found, remaining) \<Rightarrow>
       (c\<lparr> cursor := remaining \<rparr>, Inr found))"

definition closing_pair :: "val \<Rightarrow> val \<Rightarrow> bool" where
  "closing_pair side position_type =
    ((side = VStr ''BUY'' \<and> position_type = VStr ''SHORT'')
     \<or> (side = VStr ''SELL'' \<and> position_type = VStr ''LONG'')
     \<or> (side = VStr ''SELL_TO_CLOSE'' \<and> position_type = VStr ''LONG'')
     \<or> (side = VStr ''BUY_TO_CLOSE'' \<and> position_type = VStr ''SHORT''))"

definition opening_pair :: "val \<Rightarrow> val \<Rightarrow> bool" where
  "opening_pair side position_type =
    ((side = VStr ''BUY'' \<and> position_type = VStr ''LONG'')
     \<or> (side = VStr ''SELL'' \<and> position_type = VStr ''SHORT'')
     \<or> (side = VStr ''SELL_TO_OPEN'' \<and> position_type = VStr ''SHORT'')
     \<or> (side = VStr ''BUY_TO_OPEN'' \<and> position_type = VStr ''LONG''))"

text \<open>Lines 461 to 474: the strategy of the row, created when it is not there.\<close>

definition strategy_for :: "env \<Rightarrow> val \<Rightarrow> val \<Rightarrow> (db, doc option) prog" where
  "strategy_for env strategy asset_type d =
    (case find_one (strategies d)
            [(''Strategy'', strategy), (''account_id'', account_id env)] of
       Some so \<Rightarrow> (d, Inr (Some so))
     | None \<Rightarrow>
         (addNewStrategy env strategy asset_type d,
          Inr (find_one (strategies (addNewStrategy env strategy asset_type d))
                 [(''account_id'', account_id env), (''Strategy'', strategy)])))"

definition on_engine :: "(engine \<Rightarrow> engine) \<Rightarrow> (cycle, unit) prog" where
  "on_engine f = modify (\<lambda>c. c\<lparr> eng := f (eng c) \<rparr>)"

text \<open>Lines 477 to 511, with what the lines before have read.\<close>

definition decide ::
  "env \<Rightarrow> doc \<Rightarrow> val \<Rightarrow> val \<Rightarrow> doc option \<Rightarrow> doc option \<Rightarrow> doc \<Rightarrow> val \<Rightarrow> (cycle, unit) prog" where
  "decide env row symbol side open_position queued so position_type =
    (if queued \<noteq> None then ret ()
     else case open_position of
       Some position \<Rightarrow>
         if closing_pair side position_type
         then on_engine (sendOrder env (dict_merge row position) so (VStr ''CLOSE POSITION''))
         else ret ()
     | None \<Rightarrow>
         bnd (listed symbol) (\<lambda>found.
         if \<not> found then
           (if opening_pair side position_type
            then on_engine (sendOrder env row so (VStr ''OPEN POSITION''))
            else ret ())
         else ret ()))"

text \<open>The body of the loop, lines 442 to 511, for one row of trade data.\<close>

definition run_row :: "env \<Rightarrow> doc \<Rightarrow> (cycle, unit) prog" where
  "run_row env row =
     bnd (lift (getitem row ''Strategy'')) (\<lambda>strategy.
     bnd (lift (getitem row ''Symbol'')) (\<lambda>symbol.
     bnd (lift (getitem row ''Asset_Type'')) (\<lambda>asset_type.
     bnd (lift (getitem row ''Side'')) (\<lambda>side.
     bnd (\<lambda>c. (c, Inr (find_one (open_positions (store (eng c)))
                         (account_key_filter env symbol strategy)))) (\<lambda>open_position.
     bnd (\<lambda>c. (c, Inr (find_one (queue (store (eng c)))
                         (account_key_filter env symbol strategy)))) (\<lambda>queued.
     bnd (\<lambda>c. case strategy_for env strategy asset_type (store (eng c)) of
                 (d, r) \<Rightarrow> (c\<lparr> eng := (eng c)\<lparr> store := d \<rparr> \<rparr>, r)) (\<lambda>found.
     bnd (lift (case found of None \<Rightarrow> Inl TypeError | Some so \<Rightarrow> Inr so)) (\<lambda>so.
     bnd (lift (getitem so ''Position_Type'')) (\<lambda>position_type.
     decide env (dict_set ''Position_Type'' position_type row) symbol side
       open_position queued so position_type)))))))))"

text \<open>
  runTrader: the token check, the poll of the queue, then the rows in order. An exception
  in a row ends the loop; sendOrder, updateStatus and pushOrder catch their own. The
  forbidden symbols are those stored for the account (account ids are strings).
\<close>

definition runTrader_body :: "env \<Rightarrow> doc list \<Rightarrow> (engine, unit) prog" where
  "runTrader_body env trade_data =
    (if \<not> token_valid env then ret ()
     else (\<lambda>s.
       case run_all (run_row env) trade_data
              \<lparr> eng = s\<lparr> store := updateStatus env (store s) \<rparr>,
                cursor = filter (matches [(''account_id'', account_id env)])
                           (forbidden (store s)) \<rparr> of
         (c, r) \<Rightarrow> (eng c, r)))"

definition runTrader :: "env \<Rightarrow> doc list \<Rightarrow> engine \<Rightarrow> engine" where
  "runTrader env trade_data = handled (runTrader_body env trade_data)"

text \<open>Whether a collection holds a document for the key (trader, symbol, strategy).\<close>

definition holds_key :: "env \<Rightarrow> val \<Rightarrow> val \<Rightarrow> doc list \<Rightarrow> bool" where
  "holds_key env symbol strategy coll = list_ex (matches (key_filter env symbol strategy)) coll"

section \<open>A sample account\<close>

text \<open>
  A Paper account of trader Ken with one option strategy, used to run the model on concrete
  inputs. The symbol formatter of the sample joins underlying, right and strike; every quote
  is 2.00 ask and 1.90 bid; the broker knows none of the order ids.
\<close>

definition demo_env :: env where
  "demo_env = \<lparr> trader = VStr ''Ken'', account_id = VStr ''111'', live = False,
     token_valid = True, now = VStr ''2025-09-01 10:00'', randint = 123456789,
     take_profit = 3 / 2, stop_loss = 1 / 2, float_of_str = (\<lambda>s. None),
     option_symbol = (\<lambda>u e r k. case (u, r, k) of
                         (VStr a, VStr b, VStr c) \<Rightarrow> Inr (a @ b @ c)
                       | _ \<Rightarrow> Inl TypeError),
     quote = (\<lambda>s. Inr (VDict [(s, VDict [(''quote'',
                 VDict [(''askPrice'', VNum 2), (''bidPrice'', VNum (19 / 10))])])])),
     account_linked = Inr (VList [VDict [(''hashValue'', VStr ''H'')]]),
     order_place = (\<lambda>h r. Inr \<lparr> status_code = 201,
                        header = (\<lambda>k. if k = ''Location''
                                       then Some ''https://api/orders/1001'' else None),
                        body = Inr (VDict []) \<rparr>),
     get_order = (\<lambda>i. Inr [(''error'', VStr ''not found'')]) \<rparr>"

definition demo_open_signal :: doc where
  "demo_open_signal =
    [(''Symbol'', VStr ''SPY''), (''Side'', VStr ''BUY_TO_OPEN''), (''Strategy'', VStr ''S1''),
     (''Asset_Type'', VStr ''OPTION''), (''Pre_Symbol'', VStr ''SPY_092625P569''),
     (''Exp_Date'', VStr ''2025-09-26''), (''Option_Type'', VStr ''PUT'')]"

definition demo_close_signal :: doc where
  "demo_close_signal =
    [(''Symbol'', VStr ''SPY''), (''Side'', VStr ''SELL_TO_CLOSE''), (''Strategy'', VStr ''S1''),
     (''Asset_Type'', VStr ''OPTION''), (''Pre_Symbol'', VStr ''SPY_092625P569''),
     (''Exp_Date'', VStr ''2025-09-26''), (''Option_Type'', VStr ''PUT'')]"

definition demo_equity_signal :: doc where
  "demo_equity_signal =
    [(''Symbol'', VStr ''SPY''), (''Side'', VStr ''BUY''), (''Strategy'', VStr ''S1''),
     (''Asset_Type'', VStr ''EQUITY'')]"

definition demo_strategy :: doc where
  "demo_strategy =
    [(''Active'', VBool True), (''Order_Type'', VStr ''STANDARD''),
     (''Asset_Type'', VStr ''OPTION''), (''Position_Size'', VInt 500),
     (''Position_Type'', VStr ''LONG''), (''account_id'', VStr ''111''),
     (''Strategy'', VStr ''S1'')]"

definition demo_inactive_strategy :: doc where
  "demo_inactive_strategy =
    [(''Active'', VBool False), (''Order_Type'', VStr ''STANDARD''),
     (''Asset_Type'', VStr ''OPTION''), (''Position_Size'', VInt 500),
     (''Position_Type'', VStr ''LONG''), (''account_id'', VStr ''111''),
     (''Strategy'', VStr ''S1'')]"

definition empty_db :: db where
  "empty_db = \<lparr> open_positions = [], closed_positions = [], queue = [], rejected = [],
      canceled = [], strategies = [], forbidden = [], placed = [], notified = 0 \<rparr>"

definition init_engine :: "env \<Rightarrow> engine" where
  "init_engine env = \<lparr> bld = init_builder env, store = empty_db \<rparr>"

text \<open>A quote below one dollar: 0.1234 ask, 0.1233 bid.\<close>

definition penny_env :: env where
  "penny_env = demo_env\<lparr> quote := (\<lambda>s. Inr (VDict [(s, VDict [(''quote'',
      VDict [(''askPrice'', VNum (1234 / 10000)), (''bidPrice'', VNum (1233 / 10000))])])])) \<rparr>"

text \<open>The store with SPY on the account's list of forbidden symbols.\<close>

definition forbidding_engine :: engine where
  "forbidding_engine =
     \<lparr> bld = init_builder demo_env,
       store = empty_db\<lparr> strategies := [demo_strategy],
                 forbidden := [[(''Symbol'', VStr ''SPY''), (''account_id'', VStr ''111'')]] \<rparr> \<rparr>"

text \<open>The builder after it has built the opening order of the sample signal.\<close>

definition demo_built :: builder where
  "demo_built =
     \<lparr> b_order =
         \<lparr> o_orderType = VStr ''LIMIT'', o_price = VNum 2, o_session = VStr ''NORMAL'',
           o_duration = VStr ''DAY'', o_orderStrategyType = VStr ''SINGLE'',
           o_instruction = VStr ''BUY_TO_OPEN'', o_quantity = VInt 2,
           o_symbol = VStr ''SPYP569'', o_assetType = VStr ''OPTION'',
           o_putCall = Some (VStr ''PUT''), o_children = None \<rparr>,
       b_obj =
         [(''Symbol'', VStr ''SPY''), (''Qty'', VInt 2), (''Position_Size'', VInt 500),
          (''Strategy'', VStr ''S1''), (''Trader'', VStr ''Ken''), (''Order_ID'', VNone),
          (''Order_Status'', VNone), (''Side'', VStr ''BUY_TO_OPEN''),
          (''Asset_Type'', VStr ''OPTION''), (''account_id'', VStr ''111''),
          (''Position_Type'', VStr ''LONG''), (''Direction'', VStr ''OPEN POSITION''),
          (''Order_Type'', VStr ''STANDARD''), (''Pre_Symbol'', VStr ''SPYP569''),
          (''Exp_Date'', VStr ''2025-09-26''), (''Option_Type'', VStr ''PUT''),
          (''Entry_Price'', VNum 2), (''Entry_Date'', VStr ''2025-09-01 10:00'')] \<rparr>"

text \<open>The same account in Live mode.\<close>

definition demo_live_env :: env where
  "demo_live_env = demo_env\<lparr> live := True \<rparr>"









text \<open>The queued opening order of the Live account and a queued closing order.\<close>

definition demo_queued_live :: doc where
  "demo_queued_live =
    [(''Trader'', VStr ''Ken''), (''Symbol'', VStr ''SPY''), (''Strategy'', VStr ''S1''),
     (''Qty'', VInt 2), (''Position_Size'', VInt 500), (''Order_ID'', VInt 1001),
     (''Order_Status'', VStr ''QUEUED''), (''Side'', VStr ''BUY_TO_OPEN''),
     (''Asset_Type'', VStr ''OPTION''), (''account_id'', VStr ''111''),
     (''Position_Type'', VStr ''LONG''), (''Direction'', VStr ''OPEN POSITION''),
     (''Order_Type'', VStr ''STANDARD''), (''Pre_Symbol'', VStr ''SPYP569''),
     (''Exp_Date'', VStr ''2025-09-26''), (''Option_Type'', VStr ''PUT''),
     (''Entry_Price'', VNum 2), (''Entry_Date'', VStr ''2025-09-01 10:00''),
     (''Account_Position'', VStr ''Live'')]"







text \<open>A broker that reports the queued Live order as working.\<close>

definition demo_working_env :: env where
  "demo_working_env = demo_live_env\<lparr> get_order :=
     (\<lambda>i. Inr [(''orderId'', VInt 1001), (''status'', VStr ''WORKING'')]) \<rparr>"








section \<open>Basic facts\<close>

lemma and_then_simps [simp]: "and_then (Inl e) f = Inl e" "and_then (Inr x) f = f x"
  by (simp_all add: and_then_def)

lemma bnd_lift_Inl [simp]: "bnd (lift (Inl e)) f s = (s, Inl e)"
  by (simp add: bnd_def lift_def)

lemma bnd_lift_Inr [simp]: "bnd (lift (Inr x)) f s = f x s"
  by (simp add: bnd_def lift_def)

lemma thn_modify [simp]: "thn (modify g) n s = n (g s)"
  by (simp add: thn_def bnd_def modify_def)

lemma bnd_ret [simp]: "bnd (ret x) f s = f x s"
  by (simp add: bnd_def ret_def)

lemma ret_apply [simp]: "ret x s = (s, Inr x)"
  by (simp add: ret_def)

lemma raise_apply [simp]: "raise e s = (s, Inl e)"
  by (simp add: raise_def)

lemma modify_apply [simp]: "modify g s = (g s, Inr ())"
  by (simp add: modify_def)

lemma set_obj_apply [simp]: "set_obj k v b = (b\<lparr> b_obj := dict_set k v (b_obj b) \<rparr>, Inr ())"
  by (simp add: set_obj_def)

lemma set_order_apply [simp]: "set_order f b = (b\<lparr> b_order := f (b_order b) \<rparr>, Inr ())"
  by (simp add: set_order_def)

lemma thn_set_obj [simp]: "thn (set_obj k v) n b = n (b\<lparr> b_obj := dict_set k v (b_obj b) \<rparr>)"
  by (simp add: thn_def bnd_def)

lemma thn_set_order [simp]: "thn (set_order f) n b = n (b\<lparr> b_order := f (b_order b) \<rparr>)"
  by (simp add: thn_def bnd_def)

lemma bnd_InrD:
  "bnd m f s = (s', Inr y) \<Longrightarrow> \<exists>s1 x. m s = (s1, Inr x) \<and> f x s1 = (s', Inr y)"
  by (auto simp: bnd_def split: prod.splits sum.splits)

lemma thn_InrD:
  "thn m n s = (s', Inr y) \<Longrightarrow> \<exists>s1 x. m s = (s1, Inr x) \<and> n s1 = (s', Inr y)"
  by (auto simp: thn_def dest: bnd_InrD)

lemma lift_InrD: "lift r s = (s', Inr x) \<Longrightarrow> s' = s \<and> r = Inr x"
  by (simp add: lift_def)

lemma map_of_dict_set [simp]:
  "map_of (dict_set k v d) k' = (if k' = k then Some v else map_of d k')"
  by (induction d) auto

lemmas prog_defs = bnd_def thn_def lift_def ret_def raise_def modify_def and_then_def

lemmas builder_defs = standardOrder_def read_signal_def split_strike_of_def format_symbol_def
  getitem_def has_key_def fill_common_def fill_strategy_def fill_option_def quote_price_def
  quote_field_def order_price_def shares_of_def open_branch_def close_branch_def
  direction_branch_def slice_start_def py_trunc_def py_round_def round_half_even_def
  init_builder_def init_order_def init_obj_def set_obj_def set_order_def prog_defs Let_def

lemmas store_defs = matches_def find_one_def delete_one_def update_one_def insert_if_absent_def
  dict_merge_def key_filter_def account_key_filter_def on_builder_def on_store_def
  exception_handler_def handled_def

lemmas send_defs = queueOrder_body_def queueOrder_def account_hash_def place_def last_segment_def
  location_id_def rejection_record_def enqueue_def submit_def sendOrder_body_def sendOrder_def
  parse_int_def strip_def is_space_def digit_of_def

lemmas push_defs = fill_of_def read_fill_def opened_record_def closed_record_def
  delete_with_retry_def choose_target_def insert_target_def pushOrder_body_def pushOrder_def

lemmas poll_defs = snapshot_def integrity_def retire_def record_status_def resolve_filled_def
  poll_order_def queued_for_def updateStatus_body_def updateStatus_def dict_get_def

lemmas trader_defs = addNewStrategy_def listed_def closing_pair_def opening_pair_def
  strategy_for_def on_engine_def decide_def run_row_def runTrader_body_def runTrader_def
  holds_key_def

lemmas demo_defs = demo_env_def demo_open_signal_def demo_close_signal_def
  demo_equity_signal_def demo_strategy_def demo_inactive_strategy_def empty_db_def
  init_engine_def

section \<open>The order builder reads the option fields of every signal\<close>

lemma read_signal_missing:
  "map_of td ''Pre_Symbol'' = None \<Longrightarrow>
   read_signal env td = Inl (KeyError (VStr ''Symbol'')) \<or>
   read_signal env td = Inl (KeyError (VStr ''Pre_Symbol''))"
  by (cases "map_of td ''Symbol''")
     (simp_all add: read_signal_def split_strike_of_def getitem_def)

lemma read_signal_option:
  assumes "read_signal env td = Inr g"
  shows "sg_asset g = VStr ''OPTION''" and "has_key td ''Pre_Symbol''"
    and "has_key td ''Exp_Date''" and "has_key td ''Option_Type''"
    and "getitem td ''Symbol'' = Inr (sg_symbol g)"
    and "getitem td ''Strategy'' = Inr (sg_strategy g)"
    and "getitem td ''Side'' = Inr (sg_side g)"
  using assms
  by (auto simp: read_signal_def split_strike_of_def format_symbol_def getitem_def has_key_def
        and_then_def split: option.splits sum.splits)

lemma standardOrder_InrD:
  assumes "standardOrder env td so direction oco b = (b', Inr ok)"
  shows "\<exists>g b2 b3 price.
           read_signal env td = Inr g \<and>
           fill_strategy so direction (fill_common g b) = (b2, Inr ()) \<and>
           fill_option td g b2 = (b3, Inr ()) \<and>
           quote_price env td g oco = Inr price \<and>
           direction_branch env td so direction g price
             (b3\<lparr> b_order := (b_order b3)\<lparr> o_price := VNum (order_price price) \<rparr> \<rparr>)
             = (b', Inr ok)"
  using assms unfolding standardOrder_def
  by (auto dest!: bnd_InrD thn_InrD lift_InrD)


lemma fill_strategy_asset:
  "fill_strategy so direction b = (b', r) \<Longrightarrow>
   map_of (b_obj b') ''Asset_Type'' = map_of (b_obj b) ''Asset_Type'' \<and>
   o_assetType (b_order b') = o_assetType (b_order b)"
  by (cases "getitem so ''Position_Type''"; cases "getitem so ''Order_Type''")
     (auto simp: fill_strategy_def)

lemma fill_option_asset:
  "fill_option td g b = (b', r) \<Longrightarrow>
   map_of (b_obj b') ''Asset_Type'' = map_of (b_obj b) ''Asset_Type'' \<and>
   o_assetType (b_order b') = o_assetType (b_order b)"
  by (cases "getitem td ''Exp_Date''"; cases "getitem td ''Option_Type''")
     (auto simp: fill_option_def split: if_splits)

lemma open_branch_asset:
  "open_branch env so g price b = (b', r) \<Longrightarrow>
   map_of (b_obj b') ''Asset_Type'' = map_of (b_obj b) ''Asset_Type'' \<and>
   o_assetType (b_order b') = o_assetType (b_order b)"
  by (cases "and_then (getitem so ''Position_Size'') py_int"; cases "getitem so ''Active''";
      cases "shares_of (sg_asset g) (projr (and_then (getitem so ''Position_Size'') py_int)) price")
     (auto simp: open_branch_def split: if_splits)

lemma close_branch_asset:
  "close_branch env td price b = (b', r) \<Longrightarrow>
   map_of (b_obj b') ''Asset_Type'' = map_of (b_obj b) ''Asset_Type'' \<and>
   o_assetType (b_order b') = o_assetType (b_order b)"
  by (cases "getitem td ''Qty''"; cases "getitem td ''Entry_Price''";
      cases "getitem td ''Entry_Date''"; cases "getitem td ''Position_Size''")
     (auto simp: close_branch_def)

lemma direction_branch_asset:
  "direction_branch env td so direction g price b = (b', r) \<Longrightarrow>
   map_of (b_obj b') ''Asset_Type'' = map_of (b_obj b) ''Asset_Type'' \<and>
   o_assetType (b_order b') = o_assetType (b_order b)"
  by (auto simp: direction_branch_def split: if_splits
        dest!: open_branch_asset close_branch_asset)

lemma standardOrder_asset:
  assumes "standardOrder env td so direction oco b = (b', Inr ok)"
  shows "map_of (b_obj b') ''Asset_Type'' = Some (VStr ''OPTION'') \<and>
         o_assetType (b_order b') = VStr ''OPTION''"
proof -
  from standardOrder_InrD[OF assms] obtain g b2 b3 price where
    g: "read_signal env td = Inr g" and
    s2: "fill_strategy so direction (fill_common g b) = (b2, Inr ())" and
    s3: "fill_option td g b2 = (b3, Inr ())" and
    rest: "direction_branch env td so direction g price
             (b3\<lparr> b_order := (b_order b3)\<lparr> o_price := VNum (order_price price) \<rparr> \<rparr>)
           = (b', Inr ok)"
    by blast
  have a: "sg_asset g = VStr ''OPTION''"
    using g by (rule read_signal_option)
  have b1: "map_of (b_obj (fill_common g b)) ''Asset_Type'' = Some (VStr ''OPTION'') \<and>
            o_assetType (b_order (fill_common g b)) = VStr ''OPTION''"
    by (simp add: fill_common_def a)
  have b3: "map_of (b_obj b3) ''Asset_Type'' = Some (VStr ''OPTION'') \<and>
            o_assetType (b_order b3) = VStr ''OPTION''"
    using fill_strategy_asset[OF s2] fill_option_asset[OF s3] b1 by simp
  show ?thesis
    using direction_branch_asset[OF rest] b3 by simp
qed

lemma demo_open_built:
  "standardOrder demo_env demo_open_signal demo_strategy (VStr ''OPEN POSITION'') False
     (init_builder demo_env) = (demo_built, Inr True)"
  by (simp add: builder_defs demo_defs demo_built_def)

text \<open>
  C10. standardOrder reads \<^verbatim>\<open>Pre_Symbol\<close>, \<^verbatim>\<open>Exp_Date\<close> and \<^verbatim>\<open>Option_Type\<close> of
  every signal before it knows the asset type. A signal without \<^verbatim>\<open>Pre_Symbol\<close> (any
  plain equity signal) fails with a KeyError and leaves the builder as it was; whenever
  standardOrder returns, the signal had the three option fields and the order it built is
  an option order, never an equity order.
\<close>

theorem standardOrder_needs_option_fields:
  "(map_of td ''Pre_Symbol'' = None \<longrightarrow>
      standardOrder env td so direction oco b =
        (b, Inl (KeyError (VStr (if has_key td ''Symbol'' then ''Pre_Symbol'' else ''Symbol'')))))
   \<and> (standardOrder env td so direction oco b = (b', Inr ok) \<longrightarrow>
        has_key td ''Pre_Symbol'' \<and> has_key td ''Exp_Date'' \<and> has_key td ''Option_Type'' \<and>
        map_of (b_obj b') ''Asset_Type'' = Some (VStr ''OPTION'') \<and>
        o_assetType (b_order b') = VStr ''OPTION'')"
proof (intro conjI impI)
  assume "map_of td ''Pre_Symbol'' = None"
  then show "standardOrder env td so direction oco b =
        (b, Inl (KeyError (VStr (if has_key td ''Symbol'' then ''Pre_Symbol'' else ''Symbol''))))"
    by (cases "map_of td ''Symbol''")
       (simp_all add: standardOrder_def read_signal_def split_strike_of_def getitem_def
          has_key_def)
next
  assume ok: "standardOrder env td so direction oco b = (b', Inr ok)"
  from standardOrder_InrD[OF ok] obtain g where g: "read_signal env td = Inr g"
    by blast
  show "has_key td ''Pre_Symbol''" "has_key td ''Exp_Date''" "has_key td ''Option_Type''"
    using read_signal_option[OF g] by simp_all
  show "map_of (b_obj b') ''Asset_Type'' = Some (VStr ''OPTION'')"
    and "o_assetType (b_order b') = VStr ''OPTION''"
    using standardOrder_asset[OF ok] by simp_all
qed

theorem standardOrder_needs_option_fields_witness:
  "map_of demo_equity_signal ''Pre_Symbol'' = None
   \<and> standardOrder demo_env demo_equity_signal demo_strategy (VStr ''OPEN POSITION'') False
        (init_builder demo_env)
      = (init_builder demo_env, Inl (KeyError (VStr ''Pre_Symbol'')))
   \<and> standardOrder demo_env demo_open_signal demo_strategy (VStr ''OPEN POSITION'') False
        (init_builder demo_env) = (demo_built, Inr True)
   \<and> has_key demo_open_signal ''Pre_Symbol''
   \<and> map_of (b_obj demo_built) ''Asset_Type'' = Some (VStr ''OPTION'')
   \<and> o_assetType (b_order demo_built) = VStr ''OPTION''"
proof -
  have none: "map_of demo_equity_signal ''Pre_Symbol'' = None"
    by (simp add: demo_equity_signal_def)
  have sym: "has_key demo_equity_signal ''Symbol''"
    by (simp add: demo_equity_signal_def has_key_def)
  show ?thesis
    using none sym demo_open_built
      standardOrder_needs_option_fields[of demo_equity_signal demo_env demo_strategy
        "VStr ''OPEN POSITION''" False "init_builder demo_env"]
      standardOrder_needs_option_fields[of demo_open_signal demo_env demo_strategy
        "VStr ''OPEN POSITION''" False "init_builder demo_env" demo_built True]
    by simp
qed

section \<open>Rounding of the order price\<close>

text \<open>
  C4. In standardOrder both branches of the rounding round to two decimals: on a quote of
  0.1234 the order price is 0.12, where the rule of pushOrder, applied to the same price,
  keeps four decimals.
\<close>

theorem standardOrder_rounds_subdollar_price_to_cents:
  "o_price (b_order (fst (standardOrder penny_env demo_open_signal demo_strategy
      (VStr ''OPEN POSITION'') False (init_builder penny_env)))) = VNum (12 / 100)
   \<and> round_price 2 4 (VNum (1234 / 10000)) = Inr (VNum (1234 / 10000))"
  by (simp add: builder_defs demo_defs penny_env_def)

section \<open>The forbidden symbols\<close>

lemma cursor_contains_symbol: "fst (cursor_contains (VStr symbol) ds) = False"
  by (induction ds) auto

text \<open>
  C9. The membership test compares the symbol with the documents of the cursor, which are
  dictionaries, so it never finds it: with SPY on the forbidden list of the account, no
  open position and an empty queue, the signal for SPY is queued as an opening order.
\<close>

lemma demo_forbidden_cycle:
  "map (\<lambda>d. (map_of d ''Symbol'', map_of d ''Direction'', map_of d ''Order_Status''))
     (queue (store (runTrader demo_env [demo_open_signal] forbidding_engine)))
   = [(Some (VStr ''SPY''), Some (VStr ''OPEN POSITION''), Some (VStr ''QUEUED''))]"
  by (simp add: builder_defs store_defs send_defs push_defs poll_defs trader_defs demo_defs
        forbidding_engine_def)

theorem forbidden_symbol_is_opened:
  "forbidden (store forbidding_engine) = [[(''Symbol'', VStr ''SPY''), (''account_id'', VStr ''111'')]]
   \<and> length (queue (store (runTrader demo_env [demo_open_signal] forbidding_engine))) = 1
   \<and> map_of (hd (queue (store (runTrader demo_env [demo_open_signal] forbidding_engine))))
        ''Symbol'' = Some (VStr ''SPY'')
   \<and> map_of (hd (queue (store (runTrader demo_env [demo_open_signal] forbidding_engine))))
        ''Direction'' = Some (VStr ''OPEN POSITION'')
   \<and> map_of (hd (queue (store (runTrader demo_env [demo_open_signal] forbidding_engine))))
        ''Order_Status'' = Some (VStr ''QUEUED'')"
proof -
  obtain qs where qs: "queue (store (runTrader demo_env [demo_open_signal] forbidding_engine))
      = qs"
    by simp
  from demo_forbidden_cycle have "length qs = 1"
    and "map_of (hd qs) ''Symbol'' = Some (VStr ''SPY'')"
    and "map_of (hd qs) ''Direction'' = Some (VStr ''OPEN POSITION'')"
    and "map_of (hd qs) ''Order_Status'' = Some (VStr ''QUEUED'')"
    unfolding qs by (cases qs; auto)+
  then show ?thesis
    unfolding qs by (simp add: forbidding_engine_def empty_db_def)
qed

section \<open>Quantity of an opening order\<close>









section \<open>What sendOrder does when no order was built\<close>













section \<open>Inactive strategies\<close>







section \<open>Submission in Live mode\<close>









section \<open>Resolution of a queued order\<close>











section \<open>Polling an order that is still working\<close>

lemma dict_merge_single: "dict_merge d [(k, v)] = dict_set k v d"
  by (simp add: dict_merge_def)

lemma dict_set_twice: "dict_set k v (dict_set k v d) = dict_set k v d"
  by (induction d) auto

lemma matches_dict_set_other:
  assumes "k \<notin> fst ` set flt"
  shows "matches flt (dict_set k v d) = matches flt d"
  using assms by (auto simp: matches_def list_all_iff)

lemma update_first_twice:
  assumes "\<And>x. P (f x) = P x" and "\<And>x. f (f x) = f x"
  shows "update_first P f (update_first P f xs) = update_first P f xs"
  by (induction xs) (auto simp: assms)

lemma list_ex_update_first:
  assumes "\<And>x. P (f x) = P x"
  shows "list_ex P (update_first P f xs) = list_ex P xs"
  by (induction xs) (auto simp: assms)

lemma update_one_status_twice:
  assumes "k \<notin> fst ` set flt"
  shows "update_one flt [(k, v)] False (update_one flt [(k, v)] False coll)
         = update_one flt [(k, v)] False coll"
proof -
  have p: "\<And>x. matches flt (dict_merge x [(k, v)]) = matches flt x"
    by (simp add: dict_merge_single matches_dict_set_other[OF assms])
  have i: "\<And>x. dict_merge (dict_merge x [(k, v)]) [(k, v)] = dict_merge x [(k, v)]"
    by (simp add: dict_merge_single dict_set_twice)
  show ?thesis
    unfolding update_one_def
    using update_first_twice[of "matches flt" "\<lambda>d. dict_merge d [(k, v)]", OF p i]
      list_ex_update_first[of "matches flt" "\<lambda>d. dict_merge d [(k, v)]", OF p]
    by simp
qed

lemma record_status_result:
  "record_status env q st d =
    (case getitem q ''Symbol'' of
       Inl e \<Rightarrow> (d, Inl e)
     | Inr sy \<Rightarrow>
        (case getitem q ''Strategy'' of
           Inl e \<Rightarrow> (d, Inl e)
         | Inr sg \<Rightarrow>
            (d\<lparr> queue := update_one (key_filter env sy sg) [(''Order_Status'', st)] False
                            (queue d) \<rparr>, Inr ())))"
  by (simp add: record_status_def split: sum.splits)

lemma poll_order_working:
  assumes "getitem q ''Order_ID'' = Inr order_id"
      and "get_order env order_id = Inr spec_order"
      and "\<not> has_key spec_order ''error''"
      and "dict_get spec_order ''status'' \<noteq> VStr ''FILLED''"
      and "dict_get spec_order ''status'' \<noteq> VStr ''CANCELED''"
      and "dict_get spec_order ''status'' \<noteq> VStr ''REJECTED''"
  shows "poll_order env q d =
    (case getitem q ''Order_Type'' of
       Inl e \<Rightarrow> (d, Inl e)
     | Inr t \<Rightarrow>
        if order_id = dict_get spec_order ''orderId''
        then record_status env q (dict_get spec_order ''status'') d
        else (d, Inr ()))"
  using assms by (simp add: poll_order_def split: sum.splits)

lemma record_status_twice:
  assumes "getitem q' ''Symbol'' = getitem q ''Symbol''"
      and "getitem q' ''Strategy'' = getitem q ''Strategy''"
  shows "record_status env q' st (fst (record_status env q st d)) = record_status env q st d"
proof -
  have k: "''Order_Status'' \<notin> fst ` set (key_filter env sy sg)" for sy sg
    by (simp add: key_filter_def)
  show ?thesis
    unfolding record_status_result assms
    by (cases "getitem q ''Symbol''"; cases "getitem q ''Strategy''")
       (simp_all add: update_one_status_twice[OF k])
qed

lemma record_status_stores:
  "rejected (fst (record_status env q st d)) = rejected d"
  "canceled (fst (record_status env q st d)) = canceled d"
  "open_positions (fst (record_status env q st d)) = open_positions d"
  "closed_positions (fst (record_status env q st d)) = closed_positions d"
  "placed (fst (record_status env q st d)) = placed d"
  "notified (fst (record_status env q st d)) = notified d"
  unfolding record_status_result
  by (cases "getitem q ''Symbol''"; cases "getitem q ''Strategy''"; simp)+

text \<open>
  C7. For a queued order that the broker finds and whose status is none of FILLED, CANCELED
  and REJECTED, the poll writes at most the Order\_Status field of the queued record (no
  write to the Rejected or Canceled stores, none to the positions, no broker order, no
  notification), and polling again with the same reply, on the record as it is then
  stored, changes nothing at all: it returns the state of the first poll.
\<close>

theorem poll_of_working_order_is_idempotent:
  assumes "getitem q ''Order_ID'' = Inr order_id"
      and "get_order env order_id = Inr spec_order"
      and "\<not> has_key spec_order ''error''"
      and "dict_get spec_order ''status'' \<noteq> VStr ''FILLED''"
      and "dict_get spec_order ''status'' \<noteq> VStr ''CANCELED''"
      and "dict_get spec_order ''status'' \<noteq> VStr ''REJECTED''"
      and "getitem q' ''Order_ID'' = getitem q ''Order_ID''"
      and "getitem q' ''Order_Type'' = getitem q ''Order_Type''"
      and "getitem q' ''Symbol'' = getitem q ''Symbol''"
      and "getitem q' ''Strategy'' = getitem q ''Strategy''"
  shows "poll_order env q' (fst (poll_order env q d)) = poll_order env q d
       \<and> rejected (fst (poll_order env q d)) = rejected d
       \<and> canceled (fst (poll_order env q d)) = canceled d
       \<and> open_positions (fst (poll_order env q d)) = open_positions d
       \<and> closed_positions (fst (poll_order env q d)) = closed_positions d
       \<and> placed (fst (poll_order env q d)) = placed d
       \<and> notified (fst (poll_order env q d)) = notified d
       \<and> (queue (fst (poll_order env q d)) = queue d
          \<or> (\<exists>sy sg. getitem q ''Symbol'' = Inr sy \<and> getitem q ''Strategy'' = Inr sg \<and>
                queue (fst (poll_order env q d)) =
                  update_one (key_filter env sy sg)
                    [(''Order_Status'', dict_get spec_order ''status'')] False (queue d)))"
proof -
  note first = poll_order_working[OF assms(1-6)]
  have q': "getitem q' ''Order_ID'' = Inr order_id"
    using assms(1,7) by simp
  note second = poll_order_working[OF q' assms(2-6)]
  show ?thesis
  proof (cases "getitem q ''Order_Type''")
    case (Inl e)
    then show ?thesis
      using assms(8) by (simp add: first second)
  next
    case (Inr t)
    show ?thesis
    proof (cases "order_id = dict_get spec_order ''orderId''")
      case False
      with Inr show ?thesis
        using assms(8) by (simp add: first second)
    next
      case True
      have p1: "poll_order env q d = record_status env q (dict_get spec_order ''status'') d"
        using Inr True by (simp add: first)
      have p2: "poll_order env q' d' = record_status env q' (dict_get spec_order ''status'') d'"
        for d'
        using Inr True assms(8) by (simp add: second)
      have qd: "queue (fst (record_status env q (dict_get spec_order ''status'') d)) = queue d
          \<or> (\<exists>sy sg. getitem q ''Symbol'' = Inr sy \<and> getitem q ''Strategy'' = Inr sg \<and>
                queue (fst (record_status env q (dict_get spec_order ''status'') d)) =
                  update_one (key_filter env sy sg)
                    [(''Order_Status'', dict_get spec_order ''status'')] False (queue d))"
        unfolding record_status_result
        by (cases "getitem q ''Symbol''"; cases "getitem q ''Strategy''"; simp)
      show ?thesis
        unfolding p1 p2
        using record_status_twice[OF assms(9,10)] record_status_stores qd
        by simp
    qed
  qed
qed


lemma demo_working_poll:
  "poll_order demo_working_env demo_queued_live (empty_db\<lparr> queue := [demo_queued_live] \<rparr>)
   = (empty_db\<lparr> queue := [dict_set ''Order_Status'' (VStr ''WORKING'') demo_queued_live] \<rparr>,
      Inr ())"
  by (simp add: poll_defs store_defs prog_defs getitem_def has_key_def demo_working_env_def
        demo_live_env_def demo_env_def demo_queued_live_def empty_db_def)

theorem poll_of_working_order_is_idempotent_witness:
  "getitem demo_queued_live ''Order_ID'' = Inr (VInt 1001)
   \<and> get_order demo_working_env (VInt 1001)
        = Inr [(''orderId'', VInt 1001), (''status'', VStr ''WORKING'')]
   \<and> \<not> has_key [(''orderId'', VInt 1001), (''status'', VStr ''WORKING'')] ''error''
   \<and> dict_get [(''orderId'', VInt 1001), (''status'', VStr ''WORKING'')] ''status''
        = VStr ''WORKING''
   \<and> poll_order demo_working_env demo_queued_live (empty_db\<lparr> queue := [demo_queued_live] \<rparr>)
      = (empty_db\<lparr> queue := [dict_set ''Order_Status'' (VStr ''WORKING'') demo_queued_live] \<rparr>,
         Inr ())
   \<and> poll_order demo_working_env (dict_set ''Order_Status'' (VStr ''WORKING'') demo_queued_live)
        (empty_db\<lparr> queue := [dict_set ''Order_Status'' (VStr ''WORKING'') demo_queued_live] \<rparr>)
      = (empty_db\<lparr> queue := [dict_set ''Order_Status'' (VStr ''WORKING'') demo_queued_live] \<rparr>,
         Inr ())"
proof -
  let ?reply = "[(''orderId'', VInt 1001), (''status'', VStr ''WORKING'')]"
  let ?q' = "dict_set ''Order_Status'' (VStr ''WORKING'') demo_queued_live"
  have i: "getitem demo_queued_live ''Order_ID'' = Inr (VInt 1001)"
    by (simp add: demo_queued_live_def getitem_def)
  have g: "get_order demo_working_env (VInt 1001) = Inr ?reply"
    by (simp add: demo_working_env_def)
  have e: "\<not> has_key ?reply ''error''"
    by (simp add: has_key_def)
  have st: "dict_get ?reply ''status'' = VStr ''WORKING''"
    by (simp add: dict_get_def)
  have n: "dict_get ?reply ''status'' \<noteq> VStr ''FILLED''"
    "dict_get ?reply ''status'' \<noteq> VStr ''CANCELED''"
    "dict_get ?reply ''status'' \<noteq> VStr ''REJECTED''"
    by (simp_all add: st)
  have same: "getitem ?q' ''Order_ID'' = getitem demo_queued_live ''Order_ID''"
    "getitem ?q' ''Order_Type'' = getitem demo_queued_live ''Order_Type''"
    "getitem ?q' ''Symbol'' = getitem demo_queued_live ''Symbol''"
    "getitem ?q' ''Strategy'' = getitem demo_queued_live ''Strategy''"
    by (simp_all add: getitem_def)
  from poll_of_working_order_is_idempotent[OF i g e n same,
      where d = "empty_db\<lparr> queue := [demo_queued_live] \<rparr>"]
  have "poll_order demo_working_env ?q'
          (fst (poll_order demo_working_env demo_queued_live
                  (empty_db\<lparr> queue := [demo_queued_live] \<rparr>)))
        = poll_order demo_working_env demo_queued_live
            (empty_db\<lparr> queue := [demo_queued_live] \<rparr>)"
    by blast
  then show ?thesis
    using i g e st by (simp add: demo_working_poll)
qed

section \<open>The children of a filled bracket order\<close>









end
